theory Spec2Isabelle
  imports Main
begin

section \<open>Exceptions\<close>

text \<open>
  The \<open>detail\<close> of an exception is either a message or, for the aggregated failure of
  \<open>get_validated_token\<close>, a list of dictionaries (one association list per entry).
\<close>

datatype detail = Text string | Entries "(string \<times> string) list list"

text \<open>
  Every exception the modelled code raises. \<open>code\<close> and \<open>detail\<close> are keyword arguments
  of the source; an argument the source does not pass, or passes as \<open>None\<close>, is \<open>None\<close>.
\<close>

datatype exn =
    InvalidToken "string option" "detail option"
  | AuthenticationFailed "string option" "detail option"
  | NotAuthenticated "string option" "detail option"
  | PermissionDenied "string option" "detail option"
  | ValueError string
  | KeyError string
  | IntegrityError string
  | DoesNotExist
  | ValidationError string

section \<open>Persisted models (apps/users/models.py)\<close>

text \<open>
  The tables the modelled operations read or write, with the fields they touch. A UUID is
  held in its converted form, the 32 hexadecimal digits in lower case, and a timestamp as a
  number. The content-type columns and the creation
  times of the token tables, which no modelled operation reads, are left out.
\<close>

type_synonym uuid = string

record base_user =
  uuid :: uuid
  email :: string
  password :: string
  is_active :: bool
  is_staff :: bool
  is_superuser :: bool
  last_login :: "nat option"
  date_joined :: nat

record shelter =
  base_user :: uuid
  shelter_name :: string
  shelter_address :: string
  shelter_phone_number :: string
  shelter_responsible :: string
  shelter_logo :: string

record jwt =
  jwt_uuid :: uuid
  user_uuid :: uuid
  jti :: string
  token :: string
  expires_at :: nat

record jwt_blacklist =
  token_id :: uuid

text \<open>The tables of the relational store that the modelled code reads or writes.\<close>

record store =
  base_users :: "base_user list"
  shelters :: "shelter list"
  jwts :: "jwt list"
  blacklist :: "jwt_blacklist list"

text \<open>
  \<open>BaseUser.objects.get(uuid=user_id)\<close> on the primary key, a UUID field. The field first
  converts the lookup value: \<open>to_python\<close> of the framework, taken as a parameter, is
  \<open>None\<close> for a value that is not a well-formed UUID, and the lookup then raises
  \<open>ValidationError\<close> with that value. For a converted value the table is searched by key:
  no row raises \<open>DoesNotExist\<close>, and at most one row matches. A stored \<open>uuid\<close> is the
  converted form.
\<close>

definition objects_get :: "(string \<Rightarrow> uuid option) \<Rightarrow> store \<Rightarrow> string \<Rightarrow> exn + base_user" where
  "objects_get to_python db user_id =
     (case to_python user_id of
        None \<Rightarrow> Inl (ValidationError user_id)
      | Some key \<Rightarrow>
          (case find (\<lambda>u. uuid u = key) (base_users db) of
             None \<Rightarrow> Inl DoesNotExist
           | Some user \<Rightarrow> Inr user))"

section \<open>Token validation and identity resolution (apps/users/authentication.py)\<close>

text \<open>
  A validated token wrapper is read through its payload only: \<open>validated_token[k]\<close> and
  \<open>validated_token.get(k)\<close> are lookups in the claims.
\<close>

type_synonym payload = "string \<rightharpoonup> string"

text \<open>
  A token class of the JWT library: its \<open>token_type\<close> attribute and its constructor,
  which returns the wrapper or raises \<open>TokenError\<close> with a message (\<open>Inl\<close> of \<open>e.args[0]\<close>).
\<close>

record token_class =
  token_type :: string
  construct :: "string \<Rightarrow> string + payload"

record api_settings =
  AUTH_TOKEN_CLASSES :: "token_class list"
  USER_ID_CLAIM :: string
  CHECK_REVOKE_TOKEN :: bool
  REVOKE_TOKEN_CLAIM :: string

text \<open>The loop of \<open>get_validated_token\<close>, with the accumulator \<open>messages\<close> of the source.\<close>

fun validate_loop ::
  "token_class list \<Rightarrow> string \<Rightarrow> (string \<times> string) list list \<Rightarrow> exn + payload" where
  "validate_loop [] raw_token messages =
     Inl (InvalidToken (Some ''authentication_failed'') (Some (Entries messages)))"
| "validate_loop (AuthToken # rest) raw_token messages =
     (case construct AuthToken raw_token of
        Inr tok \<Rightarrow> Inr tok
      | Inl e \<Rightarrow>
          validate_loop rest raw_token
            (messages @ [[(''token_type'', token_type AuthToken), (''message'', e)]]))"

definition get_validated_token :: "api_settings \<Rightarrow> string \<Rightarrow> exn + payload" where
  "get_validated_token st raw_token = validate_loop (AUTH_TOKEN_CLASSES st) raw_token []"

text \<open>
  \<open>get_user\<close>; \<open>get_md5_hash_password\<close> is the library's fingerprint function, taken as a
  parameter. Of the exceptions of the lookup only \<open>DoesNotExist\<close> is caught; any other
  leaves \<open>get_user\<close> as it was raised.
\<close>

definition get_user ::
  "(string \<Rightarrow> uuid option) \<Rightarrow> (string \<Rightarrow> string) \<Rightarrow> api_settings \<Rightarrow> store \<Rightarrow> payload
     \<Rightarrow> exn + base_user" where
  "get_user to_python get_md5_hash_password st db validated_token =
     (case validated_token (USER_ID_CLAIM st) of
        None \<Rightarrow>
          Inl (InvalidToken None
                 (Some (Text ''Token contained no recognizable user identification'')))
      | Some user_id \<Rightarrow>
          (case objects_get to_python db user_id of
             Inl e \<Rightarrow>
               if e = DoesNotExist then
                 Inl (AuthenticationFailed (Some ''user_not_found'')
                        (Some (Text ''User not found'')))
               else Inl e
           | Inr user \<Rightarrow>
               if \<not> is_active user then
                 Inl (AuthenticationFailed (Some ''user_inactive'')
                        (Some (Text ''User is inactive'')))
               else if CHECK_REVOKE_TOKEN st \<and>
                       validated_token (REVOKE_TOKEN_CLAIM st)
                         \<noteq> Some (get_md5_hash_password (password user)) then
                 Inl (AuthenticationFailed (Some ''password_changed'')
                        (Some (Text ''The user's password has been changed.'')))
               else Inr user))"

text \<open>
  \<open>authenticate\<close> of the library's base class, from the raw token on: validate the
  token, resolve its user, and return both. The subclass overrides the two steps only.
\<close>

definition authenticate_token ::
  "(string \<Rightarrow> uuid option) \<Rightarrow> (string \<Rightarrow> string) \<Rightarrow> api_settings \<Rightarrow> store \<Rightarrow> string
     \<Rightarrow> exn + (base_user \<times> payload)" where
  "authenticate_token to_python get_md5_hash_password st db raw_token =
     (case get_validated_token st raw_token of
        Inl e \<Rightarrow> Inl e
      | Inr validated_token \<Rightarrow>
          (case get_user to_python get_md5_hash_password st db validated_token of
             Inl e \<Rightarrow> Inl e
           | Inr user \<Rightarrow> Inr (user, validated_token)))"

section \<open>User manager (apps/users/models.py)\<close>

text \<open>
  What the manager takes from the framework, as parameters: \<open>normalize_email\<close> of the
  base manager, \<open>make_password\<close> behind \<open>set_password\<close>, the value \<open>uuid4\<close> that the
  default of the primary key yields at this save, and the clock \<open>now\<close> of
  \<open>auto_now_add\<close>.
\<close>

record env =
  normalize_email :: "string option \<Rightarrow> string"
  make_password :: "string option \<Rightarrow> string"
  uuid4 :: uuid
  now :: nat

text \<open>
  \<open>**extra_fields\<close>: a dictionary from field names to the values of the boolean fields.
  \<open>dict.setdefault\<close> stores the value only under a key that is absent.
\<close>

type_synonym extra_fields = "string \<rightharpoonup> bool"

definition setdefault :: "('k \<rightharpoonup> 'v) \<Rightarrow> 'k \<Rightarrow> 'v \<Rightarrow> ('k \<rightharpoonup> 'v)" where
  "setdefault d k v = (case d k of None \<Rightarrow> d(k \<mapsto> v) | Some _ \<Rightarrow> d)"

text \<open>
  \<open>self.model(uuid=uuid, email=..., **extra_fields)\<close>: a field passed by keyword takes
  that value, every other field its declared default (\<open>False\<close> for \<open>is_active\<close>,
  \<open>is_staff\<close> and \<open>is_superuser\<close>). A \<open>uuid\<close> of \<open>None\<close> is replaced by the default of
  the primary key when the instance is saved.
\<close>

definition BaseUser :: "env \<Rightarrow> uuid option \<Rightarrow> string \<Rightarrow> extra_fields \<Rightarrow> base_user" where
  "BaseUser env uid mail extra_fields =
     \<lparr>uuid = (case uid of None \<Rightarrow> uuid4 env | Some u \<Rightarrow> u),
      email = mail,
      password = [],
      is_active = (case extra_fields ''is_active'' of None \<Rightarrow> False | Some b \<Rightarrow> b),
      is_staff = (case extra_fields ''is_staff'' of None \<Rightarrow> False | Some b \<Rightarrow> b),
      is_superuser = (case extra_fields ''is_superuser'' of None \<Rightarrow> False | Some b \<Rightarrow> b),
      last_login = None,
      date_joined = now env\<rparr>"

text \<open>
  \<open>user.save()\<close> of a new instance: an insert under the constraints the model declares,
  \<open>uuid\<close> as primary key and \<open>email\<close> unique.
\<close>

definition save_user :: "store \<Rightarrow> base_user \<Rightarrow> exn + store" where
  "save_user db user =
     (if list_ex (\<lambda>u. uuid u = uuid user) (base_users db) then
        Inl (IntegrityError ''base_user.uuid'')
      else if list_ex (\<lambda>u. email u = email user) (base_users db) then
        Inl (IntegrityError ''base_user.email'')
      else Inr (db\<lparr>base_users := base_users db @ [user]\<rparr>))"

text \<open>\<open>CustomUserManager._create_base_user\<close>.\<close>

definition create_base_user_helper ::
  "env \<Rightarrow> store \<Rightarrow> uuid option \<Rightarrow> string option \<Rightarrow> string option \<Rightarrow> extra_fields
     \<Rightarrow> exn + (base_user \<times> store)" where
  "create_base_user_helper env db uid mail pass extra_fields =
     (let user = BaseUser env uid (normalize_email env mail) extra_fields;
          user = user\<lparr>password := make_password env pass\<rparr>
      in case save_user db user of
           Inl e \<Rightarrow> Inl e
         | Inr db' \<Rightarrow> Inr (user, db'))"

text \<open>\<open>CustomUserManager.create_base_user\<close>.\<close>

definition create_base_user ::
  "env \<Rightarrow> store \<Rightarrow> uuid option \<Rightarrow> string option \<Rightarrow> string option \<Rightarrow> extra_fields
     \<Rightarrow> exn + (base_user \<times> store)" where
  "create_base_user env db uid mail pass extra_fields =
     (let extra_fields = setdefault extra_fields ''is_staff'' False;
          extra_fields = setdefault extra_fields ''is_superuser'' False;
          extra_fields = setdefault extra_fields ''is_active'' True
      in create_base_user_helper env db uid mail pass extra_fields)"

text \<open>\<open>CustomUserManager.create_superuser\<close>.\<close>

definition create_superuser ::
  "env \<Rightarrow> store \<Rightarrow> uuid option \<Rightarrow> string option \<Rightarrow> string option \<Rightarrow> extra_fields
     \<Rightarrow> exn + (base_user \<times> store)" where
  "create_superuser env db uid mail pass extra_fields =
     (let extra_fields = setdefault extra_fields ''is_staff'' True;
          extra_fields = setdefault extra_fields ''is_superuser'' True;
          extra_fields = setdefault extra_fields ''is_active'' True
      in if extra_fields ''is_staff'' \<noteq> Some True then
           Inl (ValueError ''Superuser must have is_staff=True.'')
         else if extra_fields ''is_superuser'' \<noteq> Some True then
           Inl (ValueError ''Superuser must have is_superuser=True.'')
         else if extra_fields ''is_active'' \<noteq> Some True then
           Inl (ValueError ''Active user must have is_active=True.'')
         else create_base_user_helper env db uid mail pass extra_fields)"

text \<open>
  Saving a \<open>Shelter\<close> row: \<open>base_user\<close> is its primary key and a reference to an existing
  \<open>BaseUser\<close>, and \<open>shelter_name\<close> is unique.
\<close>

definition save_shelter :: "store \<Rightarrow> shelter \<Rightarrow> exn + store" where
  "save_shelter db row =
     (if list_ex (\<lambda>x. base_user x = base_user row) (shelters db) then
        Inl (IntegrityError ''shelter.base_user'')
      else if list_ex (\<lambda>x. shelter_name x = shelter_name row) (shelters db) then
        Inl (IntegrityError ''shelter.shelter_name'')
      else if \<not> list_ex (\<lambda>u. uuid u = base_user row) (base_users db) then
        Inl (IntegrityError ''shelter.base_user references base_user.uuid'')
      else Inr (db\<lparr>shelters := shelters db @ [row]\<rparr>))"

text \<open>
  The blacklist of \<open>JWTBlacklist\<close>: a raw token is blacklisted when a blacklist row
  references the \<open>JWT\<close> record that holds it. \<open>blacklist_add\<close> inserts such a row.
\<close>

definition is_blacklisted :: "store \<Rightarrow> string \<Rightarrow> bool" where
  "is_blacklisted db raw_token =
     list_ex (\<lambda>j. token j = raw_token \<and> list_ex (\<lambda>b. token_id b = jwt_uuid j) (blacklist db))
       (jwts db)"

definition blacklist_add :: "store \<Rightarrow> uuid \<Rightarrow> store" where
  "blacklist_add db tid = db\<lparr>blacklist := blacklist db @ [\<lparr>token_id = tid\<rparr>]\<rparr>"

section \<open>Shelter view (apps/users/infrastructure/views/shelter.py)\<close>

datatype json = JString string | JErrors "(string \<times> string list) list"

type_synonym errors = "(string \<times> string list) list"

text \<open>
  The request as the view reads it; \<open>http_method\<close> is \<open>request.method\<close>.
\<close>

record 'd request =
  http_method :: string
  data :: 'd
  authenticators :: "string list"
  successful_authenticator :: "string option"

record response =
  data :: "(string \<times> json) list option"
  status :: nat
  content_type :: "string option"

text \<open>
  Modelled from the spec: \<open>UserRoles\<close> (apps/users/domain/constants) is not among the sources;
  the view passes the value of its member \<open>SHELTER\<close>, the only member modelled.
\<close>

datatype UserRoles = SHELTER

text \<open>
  The class attributes of the view, each a dictionary keyed by the HTTP method. A
  serializer class maps the request data to its \<open>errors\<close> (\<open>is_valid()\<close> false) or to
  its \<open>validated_data\<close>, and may consult the store; a use case changes the store and may
  raise.
\<close>

record ('d, 'v, 'db) view =
  application_mapping :: "string \<rightharpoonup> ('v \<Rightarrow> UserRoles \<Rightarrow> 'db \<Rightarrow> (exn + unit) \<times> 'db)"
  authentication_mapping :: "string \<rightharpoonup> string list"
  permission_mapping :: "string \<rightharpoonup> string list"
  serializer_mapping :: "string \<rightharpoonup> ('db \<Rightarrow> 'd \<Rightarrow> errors + 'v)"

text \<open>
  \<open>ShelterAPIView\<close>, over the use case \<open>register_user\<close> and the serializer class
  \<open>ShelterSerializer\<close>, neither of which is among the sources.
\<close>

definition ShelterAPIView ::
  "('v \<Rightarrow> UserRoles \<Rightarrow> 'db \<Rightarrow> (exn + unit) \<times> 'db) \<Rightarrow> ('db \<Rightarrow> 'd \<Rightarrow> errors + 'v)
     \<Rightarrow> ('d, 'v, 'db) view" where
  "ShelterAPIView application serializer =
     \<lparr>application_mapping = [''POST'' \<mapsto> application],
      authentication_mapping = [''POST'' \<mapsto> []],
      permission_mapping = [''POST'' \<mapsto> []],
      serializer_mapping = [''POST'' \<mapsto> serializer]\<rparr>"

definition not_allowed :: "string \<Rightarrow> exn" where
  "not_allowed m = ValueError (''Method '' @ m @ '' not allowed'')"

text \<open>\<open>get_authenticators\<close> catches \<open>AttributeError\<close> only: a missing key raises.\<close>

definition get_authenticators :: "('d, 'v, 'db) view \<Rightarrow> 'd request \<Rightarrow> exn + string list" where
  "get_authenticators self req =
     (case authentication_mapping self (http_method req) of
        None \<Rightarrow> Inl (KeyError (http_method req))
      | Some authentication_classes \<Rightarrow> Inr authentication_classes)"

definition get_permissions :: "('d, 'v, 'db) view \<Rightarrow> 'd request \<Rightarrow> exn + string list" where
  "get_permissions self req =
     (case permission_mapping self (http_method req) of
        None \<Rightarrow> Inl (not_allowed (http_method req))
      | Some permission_classes \<Rightarrow> Inr permission_classes)"

definition get_serializer_class ::
  "('d, 'v, 'db) view \<Rightarrow> 'd request \<Rightarrow> exn + ('db \<Rightarrow> 'd \<Rightarrow> errors + 'v)" where
  "get_serializer_class self req =
     (case serializer_mapping self (http_method req) of
        None \<Rightarrow> Inl (not_allowed (http_method req))
      | Some serializer \<Rightarrow> Inr serializer)"

definition get_application_class ::
  "('d, 'v, 'db) view \<Rightarrow> 'd request
     \<Rightarrow> exn + ('v \<Rightarrow> UserRoles \<Rightarrow> 'db \<Rightarrow> (exn + unit) \<times> 'db)" where
  "get_application_class self req =
     (case application_mapping self (http_method req) of
        None \<Rightarrow> Inl (not_allowed (http_method req))
      | Some application_class \<Rightarrow> Inr application_class)"

text \<open>\<open>permission_denied\<close> always raises; the model returns the exception.\<close>

definition permission_denied :: "'d request \<Rightarrow> string option \<Rightarrow> string option \<Rightarrow> exn" where
  "permission_denied req message code =
     (if authenticators req \<noteq> [] \<and> successful_authenticator req = None then
        NotAuthenticated code (map_option Text message)
      else PermissionDenied code (map_option Text message))"

text \<open>
  \<open>_handle_valid_request\<close>, \<open>_handle_invalid_request\<close> and \<open>post\<close>. The decorator
  \<open>ShelterPostSchema\<close> of \<open>post\<close> describes the endpoint for the API schema and is taken
  to leave the handler as it is.
\<close>

definition handle_valid_request ::
  "('d, 'v, 'db) view \<Rightarrow> 'd request \<Rightarrow> 'v \<Rightarrow> 'db \<Rightarrow> (exn + response) \<times> 'db" where
  "handle_valid_request self req validated db =
     (case get_application_class self req of
        Inl e \<Rightarrow> (Inl e, db)
      | Inr application \<Rightarrow>
          (case application validated SHELTER db of
             (Inl e, db') \<Rightarrow> (Inl e, db')
           | (Inr _, db') \<Rightarrow>
               (Inr \<lparr>data = None, status = 201, content_type = None\<rparr>, db')))"

definition handle_invalid_request :: "errors \<Rightarrow> response" where
  "handle_invalid_request errs =
     \<lparr>data = Some [(''code'', JString ''invalid_request_data''), (''detail'', JErrors errs)],
      status = 400,
      content_type = Some ''application/json''\<rparr>"

definition post :: "('d, 'v, 'db) view \<Rightarrow> 'd request \<Rightarrow> 'db \<Rightarrow> (exn + response) \<times> 'db" where
  "post self req db =
     (case get_serializer_class self req of
        Inl e \<Rightarrow> (Inl e, db)
      | Inr serializer_class \<Rightarrow>
          (case serializer_class db (request.data req) of
             Inr validated_data \<Rightarrow> handle_valid_request self req validated_data db
           | Inl errs \<Rightarrow> (Inr (handle_invalid_request errs), db)))"

text \<open>
  A POST request with the given data, as the view receives it: \<open>authentication_mapping\<close>
  has no authenticator for POST.
\<close>

definition post_request :: "'d \<Rightarrow> 'd request" where
  "post_request d = \<lparr>http_method = ''POST'', data = d, authenticators = [],
                     successful_authenticator = None\<rparr>"

section \<open>Registration (serializers/constants.py; serializer and use case from the spec)\<close>

text \<open>
  \<open>COMMON_ERROR_MESSAGES\<close> of serializers/constants.py; a letter outside ASCII is written
  as the bytes of its UTF-8 encoding.
\<close>

definition COMMON_ERROR_MESSAGES :: "string \<rightharpoonup> string" where
  "COMMON_ERROR_MESSAGES = map_of
     [(''max_length'',
       ''{field_name} no puede tener m'' @ [CHR 0xC3, CHR 0xA1] @
       ''s de {max_length} caracteres.''),
      (''min_length'', ''{field_name} debe tener al menos {min_length} caracteres.''),
      (''invalid'', ''{field_name} es inv'' @ [CHR 0xC3, CHR 0xA1] @ ''lido.''),
      (''password_mismatch'',
       ''Las contrase'' @ [CHR 0xC3, CHR 0xB1] @ ''as no coinciden.''),
      (''password_common'',
       ''Esta contrase'' @ [CHR 0xC3, CHR 0xB1] @ ''a es demasiado com'' @
       [CHR 0xC3, CHR 0xBA] @ ''n.''),
      (''password_no_upper_lower'',
       ''La contrase'' @ [CHR 0xC3, CHR 0xB1] @
       ''a debe contener al menos una mayuscula y una minuscula.''),
      (''email_in_use'',
       ''Este correo electr'' @ [CHR 0xC3, CHR 0xB3] @ ''nico ya est'' @
       [CHR 0xC3, CHR 0xA1] @ '' en uso.'')]"

type_synonym request_data = "string \<rightharpoonup> string"

definition email_in_use :: "env \<Rightarrow> store \<Rightarrow> request_data \<Rightarrow> bool" where
  "email_in_use env db d =
     list_ex (\<lambda>u. email u = normalize_email env (d ''email'')) (base_users db)"

text \<open>
  Modelled from the spec: \<open>ShelterSerializer\<close> (apps/users/infrastructure/serializers) is
  not among the sources. Its field-level rules are the external data-shape contract of the spec,
  the parameter \<open>field_rules\<close>. The spec's duplicate email, "domain validation failure
  surfaced as field-level error", is an entry under \<open>email\<close> with the \<open>email_in_use\<close>
  message, present when a stored identity already has the normalised email.
\<close>

definition ShelterSerializer ::
  "env \<Rightarrow> (request_data \<Rightarrow> errors) \<Rightarrow> store \<Rightarrow> request_data \<Rightarrow> errors + request_data" where
  "ShelterSerializer env field_rules db d =
     (let errs = field_rules d @
            (if email_in_use env db d then
               [(''email'', (case COMMON_ERROR_MESSAGES ''email_in_use'' of
                              None \<Rightarrow> [] | Some m \<Rightarrow> [m]))]
             else [])
      in if errs = [] then Inr d else Inl errs)"

definition field :: "request_data \<Rightarrow> string \<Rightarrow> string" where
  "field d k = (case d k of None \<Rightarrow> [] | Some v \<Rightarrow> v)"

text \<open>
  Modelled from the spec: \<open>UserUsesCases.register_user\<close> and \<open>UserRepository\<close> are not
  among the sources. Spec 4.4: the validated input creates "a base identity plus the corresponding
  role profile transactionally, either both are created or neither". The identity is
  created by \<open>create_base_user\<close>, the profile row takes the identity's key, and a failure
  of either insert leaves the store as it was.
\<close>

definition register_user ::
  "env \<Rightarrow> request_data \<Rightarrow> UserRoles \<Rightarrow> store \<Rightarrow> (exn + unit) \<times> store" where
  "register_user env d role db =
     (case create_base_user env db None (d ''email'') (d ''password'') Map.empty of
        Inl e \<Rightarrow> (Inl e, db)
      | Inr (user, db1) \<Rightarrow>
          (case role of
             SHELTER \<Rightarrow>
               (case save_shelter db1
                       \<lparr>base_user = uuid user,
                        shelter_name = field d ''shelter_name'',
                        shelter_address = field d ''shelter_address'',
                        shelter_phone_number = field d ''shelter_phone_number'',
                        shelter_responsible = field d ''shelter_responsible'',
                        shelter_logo = field d ''shelter_logo''\<rparr> of
                  Inl e \<Rightarrow> (Inl e, db)
                | Inr db2 \<Rightarrow> (Inr (), db2))))"

section \<open>Fixtures for the concrete evaluations\<close>

text \<open>
  Two token classes in the manner of the library's access and refresh tokens: each accepts
  the raw tokens listed for it and rejects every other string with the library's message.
\<close>

definition access_class :: "(string \<times> payload) list \<Rightarrow> token_class" where
  "access_class issued =
     \<lparr>token_type = ''access'',
      construct = (\<lambda>raw. case map_of issued raw of
                             Some claims \<Rightarrow> Inr claims
                           | None \<Rightarrow> Inl ''Token is invalid or expired'')\<rparr>"

definition refresh_class :: "(string \<times> payload) list \<Rightarrow> token_class" where
  "refresh_class issued =
     \<lparr>token_type = ''refresh'',
      construct = (\<lambda>raw. case map_of issued raw of
                             Some claims \<Rightarrow> Inr claims
                           | None \<Rightarrow> Inl ''Token has wrong type'')\<rparr>"

definition fingerprint :: "string \<Rightarrow> string" where
  "fingerprint pw = ''md5:'' @ pw"

text \<open>
  A conversion in the manner of the framework's \<open>to_python\<close> of a UUID field: it drops
  the hyphens, accepts exactly 32 hexadecimal digits in either case and yields them in lower
  case. The framework accepts a few more spellings (braces, a urn prefix), none of which
  occurs below.
\<close>

definition hex_digit :: "char \<Rightarrow> bool" where
  "hex_digit c = (c \<in> set ''0123456789abcdefABCDEF'')"

definition lower_hex :: "char \<Rightarrow> char" where
  "lower_hex c = (case map_of (zip ''ABCDEF'' ''abcdef'') c of None \<Rightarrow> c | Some l \<Rightarrow> l)"

definition uuid_hex :: "string \<Rightarrow> uuid option" where
  "uuid_hex v =
     (let h = filter (\<lambda>c. c \<noteq> CHR ''-'') v
      in if length h = 32 \<and> list_all hex_digit h then Some (map lower_hex h) else None)"

text \<open>Keys as the store holds them, and the spellings of keys that the tokens carry.\<close>

definition key_ana :: uuid where
  "key_ana = ''a1a1a1a1a1a14a1a8a1aa1a1a1a1a1a1''"

definition key_luis :: uuid where
  "key_luis = ''b2b2b2b2b2b24b2b8b2bb2b2b2b2b2b2''"

definition key_one :: uuid where
  "key_one = ''d4d4d4d4d4d44d4d8d4dd4d4d4d4d4d4''"

definition key_two :: uuid where
  "key_two = ''e5e5e5e5e5e54e5e8e5ee5e5e5e5e5e5''"

definition key_t1 :: uuid where
  "key_t1 = ''0f0f0f0f0f0f4f0f8f0f0f0f0f0f0f01''"

definition key_t2 :: uuid where
  "key_t2 = ''0f0f0f0f0f0f4f0f8f0f0f0f0f0f0f02''"

definition ref_ana :: string where
  "ref_ana = ''a1a1a1a1-a1a1-4a1a-8a1a-a1a1a1a1a1a1''"

definition ref_ana_upper :: string where
  "ref_ana_upper = ''A1A1A1A1-A1A1-4A1A-8A1A-A1A1A1A1A1A1''"

definition ref_luis :: string where
  "ref_luis = ''b2b2b2b2-b2b2-4b2b-8b2b-b2b2b2b2b2b2''"

definition ref_one :: string where
  "ref_one = ''d4d4d4d4-d4d4-4d4d-8d4d-d4d4d4d4d4d4''"

definition ref_ghost :: string where
  "ref_ghost = ''c3c3c3c3-c3c3-4c3c-8c3c-c3c3c3c3c3c3''"

definition key_ghost :: uuid where
  "key_ghost = ''c3c3c3c3c3c34c3c8c3cc3c3c3c3c3c3''"

definition ana :: base_user where
  "ana = \<lparr>uuid = key_ana, email = ''ana@refugio.org'', password = ''hash-new'',
          is_active = True, is_staff = False, is_superuser = False,
          last_login = None, date_joined = 10\<rparr>"

definition luis :: base_user where
  "luis = \<lparr>uuid = key_luis, email = ''luis@refugio.org'', password = ''hash-luis'',
           is_active = False, is_staff = False, is_superuser = False,
           last_login = None, date_joined = 11\<rparr>"

definition claims_old :: payload where
  "claims_old = [''user_uuid'' \<mapsto> ref_ana, ''jti'' \<mapsto> ''abc123'',
                 ''hash_password'' \<mapsto> ''md5:hash-old'']"

definition claims_new :: payload where
  "claims_new = [''user_uuid'' \<mapsto> ref_ana, ''jti'' \<mapsto> ''def456'',
                 ''hash_password'' \<mapsto> ''md5:hash-new'']"

definition claims_bare :: payload where
  "claims_bare = [''user_uuid'' \<mapsto> ref_ana, ''jti'' \<mapsto> ''ghi789'']"

definition claims_luis :: payload where
  "claims_luis = [''user_uuid'' \<mapsto> ref_luis, ''jti'' \<mapsto> ''jkl012'']"

definition claims_ghost :: payload where
  "claims_ghost = [''user_uuid'' \<mapsto> ref_ghost, ''jti'' \<mapsto> ''mno345'']"

text \<open>Claims whose identity value is not a UUID in any spelling.\<close>

definition claims_malformed :: payload where
  "claims_malformed = [''user_uuid'' \<mapsto> ''not-a-uuid'', ''jti'' \<mapsto> ''pqr678'']"

definition settings :: "bool \<Rightarrow> api_settings" where
  "settings check =
     \<lparr>AUTH_TOKEN_CLASSES =
        [access_class [(''raw-old'', claims_old), (''raw-new'', claims_new)],
         refresh_class [(''raw-refresh'', claims_bare)]],
      USER_ID_CLAIM = ''user_uuid'',
      CHECK_REVOKE_TOKEN = check,
      REVOKE_TOKEN_CLAIM = ''hash_password''\<rparr>"

text \<open>
  The settings of settings/environments/base.py: the access token as the only token class,
  \<open>user_uuid\<close> as the identity claim, and the library's defaults for the revocation claim
  (check off, claim \<open>hash_password\<close>).
\<close>

definition SIMPLE_JWT :: api_settings where
  "SIMPLE_JWT =
     \<lparr>AUTH_TOKEN_CLASSES =
        [access_class [(''raw-old'', claims_old), (''raw-new'', claims_new)]],
      USER_ID_CLAIM = ''user_uuid'',
      CHECK_REVOKE_TOKEN = False,
      REVOKE_TOKEN_CLAIM = ''hash_password''\<rparr>"

definition db0 :: store where
  "db0 = \<lparr>base_users = [ana, luis], shelters = [],
          jwts = [\<lparr>jwt_uuid = key_t1, user_uuid = key_ana, jti = ''abc123'',
                   token = ''raw-old'', expires_at = 1000\<rparr>,
                  \<lparr>jwt_uuid = key_t2, user_uuid = key_ana, jti = ''def456'',
                   token = ''raw-new'', expires_at = 1000\<rparr>],
          blacklist = []\<rparr>"

text \<open>
  The framework at two successive saves: the identity function for \<open>normalize_email\<close>, a
  tagging hash, and a different fresh key and time at each save.
\<close>

definition env1 :: env where
  "env1 = \<lparr>normalize_email = (\<lambda>m. case m of None \<Rightarrow> [] | Some a \<Rightarrow> a),
           make_password = (\<lambda>p. case p of None \<Rightarrow> ''!'' | Some a \<Rightarrow> ''hash-'' @ a),
           uuid4 = key_one, now = 21\<rparr>"

definition env2 :: env where
  "env2 = env1\<lparr>uuid4 := key_two, now := 22\<rparr>"

text \<open>The user that \<open>create_base_user\<close> saves from the first of the two saves.\<close>

definition eva :: base_user where
  "eva = \<lparr>uuid = key_one, email = ''eva@refugio.org'', password = ''hash-secreto'',
          is_active = True, is_staff = False, is_superuser = False,
          last_login = None, date_joined = 21\<rparr>"

text \<open>The store after a user was built by the model's constructor alone and saved.\<close>

definition db_plain :: store where
  "db_plain = db0\<lparr>base_users := base_users db0 @ [BaseUser env1 None ''eva@refugio.org'' Map.empty]\<rparr>"

text \<open>Two registration forms with one email, and field rules that accept every form.\<close>

definition no_rules :: "request_data \<Rightarrow> errors" where
  "no_rules d = []"

definition form1 :: request_data where
  "form1 = [''email'' \<mapsto> ''hogar@refugio.org'', ''password'' \<mapsto> ''Secreto123'',
            ''shelter_name'' \<mapsto> ''Hogar Uno'']"

definition form2 :: request_data where
  "form2 = [''email'' \<mapsto> ''hogar@refugio.org'', ''password'' \<mapsto> ''Otra12345'',
            ''shelter_name'' \<mapsto> ''Hogar Dos'']"

text \<open>
  The store once the first form is registered, and a form with another email and the shelter
  name that this store already holds.
\<close>

definition db_hogar :: store where
  "db_hogar = db0
     \<lparr>base_users := [ana, luis,
        \<lparr>uuid = key_one, email = ''hogar@refugio.org'', password = ''hash-Secreto123'',
          is_active = True, is_staff = False, is_superuser = False,
          last_login = None, date_joined = 21\<rparr>],
      shelters := [\<lparr>base_user = key_one, shelter_name = ''Hogar Uno'', shelter_address = [],
                    shelter_phone_number = [], shelter_responsible = [], shelter_logo = []\<rparr>]\<rparr>"

definition form3 :: request_data where
  "form3 = [''email'' \<mapsto> ''otro@refugio.org'', ''password'' \<mapsto> ''Clave12345'',
            ''shelter_name'' \<mapsto> ''Hogar Uno'']"

text \<open>A serializer and a use case over a counter, for the view alone.\<close>

definition toy_serializer :: "nat \<Rightarrow> string \<Rightarrow> errors + string" where
  "toy_serializer db d = (if d = [] then Inl [(''email'', [''required''])] else Inr d)"

definition toy_application :: "string \<Rightarrow> UserRoles \<Rightarrow> nat \<Rightarrow> (exn + unit) \<times> nat" where
  "toy_application v role db = (Inr (), Suc db)"

definition toy_failing :: "string \<Rightarrow> UserRoles \<Rightarrow> nat \<Rightarrow> (exn + unit) \<times> nat" where
  "toy_failing v role db = (Inl (IntegrityError ''shelter.shelter_name''), db)"

section \<open>Token validation\<close>

lemma validate_loop_all_fail:
  "\<forall>c\<in>set cs. isl (construct c raw) \<Longrightarrow>
   validate_loop cs raw ms =
     Inl (InvalidToken (Some ''authentication_failed'')
            (Some (Entries (ms @ map (\<lambda>c. [(''token_type'', token_type c),
                                              (''message'', projl (construct c raw))]) cs))))"
proof (induction cs arbitrary: ms)
  case Nil
  then show ?case by simp
next
  case (Cons c cs)
  then obtain e where e: "construct c raw = Inl e"
    by (cases "construct c raw") auto
  from Cons.prems have "\<forall>c\<in>set cs. isl (construct c raw)" by simp
  from Cons.IH [OF this] e show ?case by simp
qed

lemma validate_loop_first_success:
  "\<forall>p\<in>set earlier. isl (construct p raw) \<Longrightarrow> construct c raw = Inr tok \<Longrightarrow>
   validate_loop (earlier @ c # later) raw ms = Inr tok"
proof (induction earlier arbitrary: ms)
  case Nil
  then show ?case by simp
next
  case (Cons p earlier)
  then obtain e where e: "construct p raw = Inl e"
    by (cases "construct p raw") auto
  from Cons.prems have "\<forall>p\<in>set earlier. isl (construct p raw)" by simp
  from Cons.IH [OF this Cons.prems(2)] e show ?case by simp
qed

text \<open>
  C1. \<open>get_validated_token\<close> tries the configured token classes in their declared order.
  When a class accepts the raw token and every class before it has raised \<open>TokenError\<close>, the
  result is the wrapper of that first accepting class. When every class raises, the result
  is \<open>InvalidToken\<close> with code \<open>authentication_failed\<close>, whose detail has exactly one entry
  per configured class, in order, holding the class's \<open>token_type\<close> and its message.
\<close>

theorem get_validated_token_first_or_all_failures:
  "(AUTH_TOKEN_CLASSES st = earlier @ c # later \<and> (\<forall>p\<in>set earlier. isl (construct p raw)) \<and>
      construct c raw = Inr tok
      \<longrightarrow> get_validated_token st raw = Inr tok) \<and>
   ((\<forall>c\<in>set (AUTH_TOKEN_CLASSES st). isl (construct c raw))
      \<longrightarrow> get_validated_token st raw =
            Inl (InvalidToken (Some ''authentication_failed'')
                   (Some (Entries (map (\<lambda>c. [(''token_type'', token_type c),
                                              (''message'', projl (construct c raw))])
                                     (AUTH_TOKEN_CLASSES st))))))"
  using validate_loop_first_success [of earlier raw c tok later "[]"]
        validate_loop_all_fail [of "AUTH_TOKEN_CLASSES st" raw "[]"]
  by (simp add: get_validated_token_def)

theorem get_validated_token_first_or_all_failures_witness:
  "get_validated_token (settings True) ''raw-refresh'' = Inr claims_bare \<and>
   get_validated_token (settings True) ''garbage'' =
     Inl (InvalidToken (Some ''authentication_failed'')
            (Some (Entries [[(''token_type'', ''access''),
                             (''message'', ''Token is invalid or expired'')],
                            [(''token_type'', ''refresh''),
                             (''message'', ''Token has wrong type'')]])))"
  using get_validated_token_first_or_all_failures
          [of "settings True"
              "[access_class [(''raw-old'', claims_old), (''raw-new'', claims_new)]]"
              "refresh_class [(''raw-refresh'', claims_bare)]" "[]" "''raw-refresh''" claims_bare]
        get_validated_token_first_or_all_failures
          [of "settings True" "[]" "refresh_class []" "[]" "''garbage''" claims_bare]
  by (simp add: settings_def access_class_def refresh_class_def)

section \<open>Identity resolution\<close>

lemma uuid_hex_refs:
  "uuid_hex ref_ana = Some key_ana"
  "uuid_hex ref_ana_upper = Some key_ana"
  "uuid_hex ref_luis = Some key_luis"
  "uuid_hex ref_one = Some key_one"
  "uuid_hex ref_ghost = Some key_ghost"
  "uuid_hex ''not-a-uuid'' = None"
  by (simp_all add: uuid_hex_def hex_digit_def lower_hex_def ref_ana_def ref_ana_upper_def
        ref_luis_def ref_one_def ref_ghost_def key_ana_def key_luis_def key_one_def
        key_ghost_def)

lemma lookup_refs:
  "objects_get uuid_hex db0 ref_ana = Inr ana"
  "objects_get uuid_hex db0 ref_ana_upper = Inr ana"
  "objects_get uuid_hex db0 ref_luis = Inr luis"
  "objects_get uuid_hex db0 ref_ghost = Inl DoesNotExist"
  "objects_get uuid_hex db0 ''not-a-uuid'' = Inl (ValidationError ''not-a-uuid'')"
  by (simp_all add: objects_get_def uuid_hex_refs db0_def ana_def luis_def key_ana_def
        key_luis_def key_ghost_def)

text \<open>
  C7, amended. When the token carries the user-identity claim, its value is a well-formed
  UUID, and no stored user has that UUID as its key, \<open>get_user\<close> raises
  \<open>AuthenticationFailed\<close> with code \<open>user_not_found\<close>.
\<close>

theorem get_user_unknown_identity:
  "validated_token (USER_ID_CLAIM st) = Some user_id \<Longrightarrow>
   to_python user_id = Some key \<Longrightarrow>
   \<forall>u\<in>set (base_users db). uuid u \<noteq> key \<Longrightarrow>
   get_user to_python get_md5_hash_password st db validated_token =
     Inl (AuthenticationFailed (Some ''user_not_found'') (Some (Text ''User not found'')))"
proof -
  assume claim: "validated_token (USER_ID_CLAIM st) = Some user_id"
    and wf: "to_python user_id = Some key"
    and absent: "\<forall>u\<in>set (base_users db). uuid u \<noteq> key"
  from absent have "find (\<lambda>u. uuid u = key) (base_users db) = None"
    by (simp add: find_None_iff)
  with wf have "objects_get to_python db user_id = Inl DoesNotExist"
    by (simp add: objects_get_def)
  with claim show ?thesis by (simp add: get_user_def)
qed

theorem get_user_unknown_identity_witness:
  "claims_ghost (USER_ID_CLAIM (settings True)) = Some ref_ghost \<and>
   uuid_hex ref_ghost = Some key_ghost \<and>
   key_ghost \<notin> set (map uuid (base_users db0)) \<and>
   get_user uuid_hex fingerprint (settings True) db0 claims_ghost =
     Inl (AuthenticationFailed (Some ''user_not_found'') (Some (Text ''User not found'')))"
proof -
  have c: "claims_ghost (USER_ID_CLAIM (settings True)) = Some ref_ghost"
    by (simp add: claims_ghost_def settings_def)
  have w: "uuid_hex ref_ghost = Some key_ghost"
    by (rule uuid_hex_refs)
  have a: "\<forall>u\<in>set (base_users db0). uuid u \<noteq> key_ghost"
    by (simp add: db0_def ana_def luis_def key_ana_def key_luis_def key_ghost_def)
  have n: "key_ghost \<notin> set (map uuid (base_users db0))"
    by (simp add: db0_def ana_def luis_def key_ana_def key_luis_def key_ghost_def)
  from get_user_unknown_identity
      [where validated_token = claims_ghost and st = "settings True" and db = db0
         and to_python = uuid_hex and get_md5_hash_password = fingerprint, OF c w a] c w n
  show ?thesis by simp
qed

text \<open>
  C7 as first stated, for every claim value that matches no stored user, fails at a value
  that is not a UUID: the lookup raises \<open>ValidationError\<close>, which \<open>get_user\<close> does not
  catch, so the result is that exception and not \<open>user_not_found\<close>.
\<close>

theorem get_user_malformed_identity:
  "claims_malformed (USER_ID_CLAIM SIMPLE_JWT) = Some ''not-a-uuid'' \<and>
   ''not-a-uuid'' \<notin> set (map uuid (base_users db0)) \<and>
   get_user uuid_hex fingerprint SIMPLE_JWT db0 claims_malformed =
     Inl (ValidationError ''not-a-uuid'') \<and>
   get_user uuid_hex fingerprint SIMPLE_JWT db0 claims_malformed \<noteq>
     Inl (AuthenticationFailed (Some ''user_not_found'') (Some (Text ''User not found'')))"
proof -
  have c: "claims_malformed (USER_ID_CLAIM SIMPLE_JWT) = Some ''not-a-uuid''"
    by (simp add: claims_malformed_def SIMPLE_JWT_def)
  have n: "''not-a-uuid'' \<notin> set (map uuid (base_users db0))"
    by (simp add: db0_def ana_def luis_def key_ana_def key_luis_def)
  have g: "get_user uuid_hex fingerprint SIMPLE_JWT db0 claims_malformed =
     Inl (ValidationError ''not-a-uuid'')"
    using c by (simp add: get_user_def lookup_refs)
  from c n g show ?thesis by simp
qed

text \<open>
  C8. When the token's user exists and its \<open>is_active\<close> is false, \<open>get_user\<close> raises
  \<open>AuthenticationFailed\<close> with code \<open>user_inactive\<close>, whatever the setting of the
  revocation check, the fingerprint function and the token's revocation claim are: the
  revocation claim is not consulted for an inactive user.
\<close>

theorem get_user_inactive:
  "validated_token (USER_ID_CLAIM st) = Some user_id \<Longrightarrow>
   objects_get to_python db user_id = Inr user \<Longrightarrow> \<not> is_active user \<Longrightarrow>
   get_user to_python get_md5_hash_password (st\<lparr>CHECK_REVOKE_TOKEN := check\<rparr>) db
     validated_token =
     Inl (AuthenticationFailed (Some ''user_inactive'') (Some (Text ''User is inactive'')))"
  by (simp add: get_user_def)

theorem get_user_inactive_witness:
  "claims_luis (USER_ID_CLAIM (settings False)) = Some ref_luis \<and>
   objects_get uuid_hex db0 ref_luis = Inr luis \<and> \<not> is_active luis \<and>
   get_user uuid_hex fingerprint (settings True) db0 claims_luis =
     Inl (AuthenticationFailed (Some ''user_inactive'') (Some (Text ''User is inactive'')))"
proof -
  have c: "claims_luis (USER_ID_CLAIM (settings False)) = Some ref_luis"
    by (simp add: claims_luis_def settings_def)
  have g: "objects_get uuid_hex db0 ref_luis = Inr luis"
    by (rule lookup_refs)
  have i: "\<not> is_active luis" by (simp add: luis_def)
  have s: "(settings False)\<lparr>CHECK_REVOKE_TOKEN := True\<rparr> = settings True"
    by (simp add: settings_def)
  from get_user_inactive
      [where validated_token = claims_luis and st = "settings False" and db = db0
         and to_python = uuid_hex and get_md5_hash_password = fingerprint and check = True,
       OF c g i] c g i s
  show ?thesis by simp
qed

text \<open>
  C9. With the revocation check enabled, a token of an existing, active user that carries no
  revocation claim fails with \<open>AuthenticationFailed\<close>, code \<open>password_changed\<close>: the
  absent claim reads as \<open>None\<close>, which differs from every fingerprint.
\<close>

theorem get_user_missing_revoke_claim:
  "CHECK_REVOKE_TOKEN st \<Longrightarrow> validated_token (USER_ID_CLAIM st) = Some user_id \<Longrightarrow>
   objects_get to_python db user_id = Inr user \<Longrightarrow> is_active user \<Longrightarrow>
   validated_token (REVOKE_TOKEN_CLAIM st) = None \<Longrightarrow>
   get_user to_python get_md5_hash_password st db validated_token =
     Inl (AuthenticationFailed (Some ''password_changed'')
            (Some (Text ''The user's password has been changed.'')))"
  by (simp add: get_user_def)

theorem get_user_missing_revoke_claim_witness:
  "CHECK_REVOKE_TOKEN (settings True) \<and>
   claims_bare (USER_ID_CLAIM (settings True)) = Some ref_ana \<and>
   objects_get uuid_hex db0 ref_ana = Inr ana \<and> is_active ana \<and>
   claims_bare (REVOKE_TOKEN_CLAIM (settings True)) = None \<and>
   get_user uuid_hex fingerprint (settings True) db0 claims_bare =
     Inl (AuthenticationFailed (Some ''password_changed'')
            (Some (Text ''The user's password has been changed.'')))"
proof -
  have k: "CHECK_REVOKE_TOKEN (settings True)" by (simp add: settings_def)
  have c: "claims_bare (USER_ID_CLAIM (settings True)) = Some ref_ana"
    by (simp add: claims_bare_def settings_def)
  have g: "objects_get uuid_hex db0 ref_ana = Inr ana"
    by (rule lookup_refs)
  have i: "is_active ana" by (simp add: ana_def)
  have r: "claims_bare (REVOKE_TOKEN_CLAIM (settings True)) = None"
    by (simp add: claims_bare_def settings_def)
  from get_user_missing_revoke_claim
      [where validated_token = claims_bare and st = "settings True" and db = db0
         and to_python = uuid_hex and get_md5_hash_password = fingerprint,
       OF k c g i r] k c g i r
  show ?thesis by simp
qed

text \<open>
  C3. With the revocation check enabled and the token's user existing and active,
  \<open>get_user\<close> raises \<open>AuthenticationFailed\<close> with code \<open>password_changed\<close> exactly when
  the token's revocation claim differs from the fingerprint of the stored password hash, and
  returns the user exactly when they agree. So a token carrying the fingerprint of an
  earlier password hash, where that fingerprint differs from the current one, fails, and a
  token carrying the current fingerprint resolves.
\<close>

theorem get_user_revoke_check:
  assumes "CHECK_REVOKE_TOKEN st"
    and "validated_token (USER_ID_CLAIM st) = Some user_id"
    and "objects_get to_python db user_id = Inr user"
    and "is_active user"
  shows "((get_user to_python get_md5_hash_password st db validated_token =
             Inl (AuthenticationFailed (Some ''password_changed'')
                    (Some (Text ''The user's password has been changed.''))))
           = (validated_token (REVOKE_TOKEN_CLAIM st)
                \<noteq> Some (get_md5_hash_password (password user)))) \<and>
         ((get_user to_python get_md5_hash_password st db validated_token = Inr user)
           = (validated_token (REVOKE_TOKEN_CLAIM st)
                = Some (get_md5_hash_password (password user)))) \<and>
         (validated_token (REVOKE_TOKEN_CLAIM st) = Some (get_md5_hash_password old_password) \<and>
          get_md5_hash_password old_password \<noteq> get_md5_hash_password (password user)
            \<longrightarrow> get_user to_python get_md5_hash_password st db validated_token =
                  Inl (AuthenticationFailed (Some ''password_changed'')
                         (Some (Text ''The user's password has been changed.''))))"
  using assms by (simp add: get_user_def)

theorem get_user_revoke_check_witness:
  "CHECK_REVOKE_TOKEN (settings True) \<and>
   claims_old (USER_ID_CLAIM (settings True)) = Some ref_ana \<and>
   claims_new (USER_ID_CLAIM (settings True)) = Some ref_ana \<and>
   objects_get uuid_hex db0 ref_ana = Inr ana \<and> is_active ana \<and>
   claims_old (REVOKE_TOKEN_CLAIM (settings True)) = Some (fingerprint ''hash-old'') \<and>
   fingerprint ''hash-old'' \<noteq> fingerprint (password ana) \<and>
   get_user uuid_hex fingerprint (settings True) db0 claims_old =
     Inl (AuthenticationFailed (Some ''password_changed'')
            (Some (Text ''The user's password has been changed.''))) \<and>
   get_user uuid_hex fingerprint (settings True) db0 claims_new = Inr ana"
proof -
  have k: "CHECK_REVOKE_TOKEN (settings True)" by (simp add: settings_def)
  have co: "claims_old (USER_ID_CLAIM (settings True)) = Some ref_ana"
    by (simp add: claims_old_def settings_def)
  have cn: "claims_new (USER_ID_CLAIM (settings True)) = Some ref_ana"
    by (simp add: claims_new_def settings_def)
  have g: "objects_get uuid_hex db0 ref_ana = Inr ana"
    by (rule lookup_refs)
  have i: "is_active ana" by (simp add: ana_def)
  have ro: "claims_old (REVOKE_TOKEN_CLAIM (settings True)) = Some (fingerprint ''hash-old'')"
    by (simp add: claims_old_def settings_def fingerprint_def)
  have rn: "claims_new (REVOKE_TOKEN_CLAIM (settings True)) = Some (fingerprint (password ana))"
    by (simp add: claims_new_def settings_def fingerprint_def ana_def)
  have d: "fingerprint ''hash-old'' \<noteq> fingerprint (password ana)"
    by (simp add: fingerprint_def ana_def)
  note old = get_user_revoke_check
      [where validated_token = claims_old and st = "settings True" and db = db0
         and to_python = uuid_hex and get_md5_hash_password = fingerprint
         and old_password = "''hash-old''",
       OF k co g i]
  note new = get_user_revoke_check
      [where validated_token = claims_new and st = "settings True" and db = db0
         and to_python = uuid_hex and get_md5_hash_password = fingerprint
         and old_password = "''hash-old''",
       OF k cn g i]
  from old ro d have "get_user uuid_hex fingerprint (settings True) db0 claims_old =
     Inl (AuthenticationFailed (Some ''password_changed'')
            (Some (Text ''The user's password has been changed.'')))"
    by blast
  moreover from new rn
  have "get_user uuid_hex fingerprint (settings True) db0 claims_new = Inr ana"
    by blast
  ultimately show ?thesis using k co cn g i ro d by blast
qed

section \<open>Blacklist\<close>

lemma objects_get_ignores_blacklist:
  "objects_get p (db\<lparr>blacklist := b\<rparr>) v = objects_get p db v"
  by (cases "p v") (simp_all add: objects_get_def)

lemma get_user_ignores_blacklist:
  "get_user p h st (db\<lparr>blacklist := b\<rparr>) tok = get_user p h st db tok"
  by (cases "tok (USER_ID_CLAIM st)")
     (simp_all add: get_user_def objects_get_ignores_blacklist)

lemma authenticate_token_ignores_blacklist:
  "authenticate_token p h st (db\<lparr>blacklist := b\<rparr>) raw = authenticate_token p h st db raw"
  by (cases "get_validated_token st raw")
     (simp_all add: authenticate_token_def get_user_ignores_blacklist)

text \<open>
  C2. The claim is that a token whose record has a blacklist entry is rejected by the
  authentication path. The path never reads the blacklist: after the entry for the record of
  \<open>raw-old\<close> is inserted, that raw token is blacklisted and still authenticates as its
  user. This is the evaluation of the code at that input.
\<close>

theorem blacklisted_token_still_authenticates:
  "\<not> is_blacklisted db0 ''raw-old'' \<and>
   is_blacklisted (blacklist_add db0 key_t1) ''raw-old'' \<and>
   authenticate_token uuid_hex fingerprint SIMPLE_JWT (blacklist_add db0 key_t1) ''raw-old''
     = Inr (ana, claims_old) \<and>
   authenticate_token uuid_hex fingerprint SIMPLE_JWT (blacklist_add db0 key_t1) ''raw-new''
     = Inr (ana, claims_new)"
proof -
  have b: "\<not> is_blacklisted db0 ''raw-old''"
      "is_blacklisted (blacklist_add db0 key_t1) ''raw-old''"
    by (simp_all add: is_blacklisted_def blacklist_add_def db0_def key_t1_def key_t2_def)
  have v: "get_validated_token SIMPLE_JWT ''raw-old'' = Inr claims_old"
      "get_validated_token SIMPLE_JWT ''raw-new'' = Inr claims_new"
    by (simp_all add: get_validated_token_def SIMPLE_JWT_def access_class_def)
  have c: "claims_old (USER_ID_CLAIM SIMPLE_JWT) = Some ref_ana"
      "claims_new (USER_ID_CLAIM SIMPLE_JWT) = Some ref_ana"
    by (simp_all add: claims_old_def claims_new_def SIMPLE_JWT_def)
  have k: "\<not> CHECK_REVOKE_TOKEN SIMPLE_JWT" "is_active ana"
    by (simp_all add: SIMPLE_JWT_def ana_def)
  have g: "objects_get uuid_hex (blacklist_add db0 key_t1) ref_ana = Inr ana"
    by (simp add: blacklist_add_def objects_get_ignores_blacklist lookup_refs)
  have u: "get_user uuid_hex fingerprint SIMPLE_JWT (blacklist_add db0 key_t1) claims_old
             = Inr ana"
      "get_user uuid_hex fingerprint SIMPLE_JWT (blacklist_add db0 key_t1) claims_new
             = Inr ana"
    using c k g by (simp_all add: get_user_def)
  from b v u show ?thesis by (simp add: authenticate_token_def)
qed

section \<open>User manager\<close>

lemma create_base_user_helper_result:
  "create_base_user_helper env db uid mail pass ex = Inr (user, db') \<Longrightarrow>
   user = (BaseUser env uid (normalize_email env mail) ex)\<lparr>password := make_password env pass\<rparr>
   \<and> base_users db' = base_users db @ [user]"
  by (auto simp: create_base_user_helper_def save_user_def Let_def split: if_splits)

text \<open>
  C10. A call of \<open>create_base_user\<close> that passes none of \<open>is_staff\<close>,
  \<open>is_superuser\<close> and \<open>is_active\<close>, when it saves a user, saves one with
  \<open>is_staff\<close> and \<open>is_superuser\<close> false and \<open>is_active\<close> true. The model's own
  default of \<open>is_active\<close> is false: a user built by the constructor without the flag is
  inactive, and \<open>get_user\<close> rejects a token for it with \<open>user_inactive\<close>.
\<close>

theorem create_base_user_default_flags:
  "(extra_fields ''is_staff'' = None \<and> extra_fields ''is_superuser'' = None \<and>
    extra_fields ''is_active'' = None \<and>
    create_base_user env db uid mail pass extra_fields = Inr (user, db')
      \<longrightarrow> \<not> is_staff user \<and> \<not> is_superuser user \<and> is_active user \<and>
          base_users db' = base_users db @ [user]) \<and>
   \<not> is_active (BaseUser env uid' mail' Map.empty) \<and>
   (validated_token (USER_ID_CLAIM st) = Some user_id \<and>
    objects_get to_python stored user_id = Inr (BaseUser env uid' mail' Map.empty)
      \<longrightarrow> get_user to_python get_md5_hash_password st stored validated_token =
            Inl (AuthenticationFailed (Some ''user_inactive'')
                   (Some (Text ''User is inactive''))))"
proof (intro conjI impI)
  assume a: "extra_fields ''is_staff'' = None \<and> extra_fields ''is_superuser'' = None \<and>
    extra_fields ''is_active'' = None \<and>
    create_base_user env db uid mail pass extra_fields = Inr (user, db')"
  define ex where "ex = setdefault (setdefault (setdefault extra_fields ''is_staff'' False)
                           ''is_superuser'' False) ''is_active'' True"
  from a have flags: "ex ''is_staff'' = Some False" "ex ''is_superuser'' = Some False"
      "ex ''is_active'' = Some True"
    by (simp_all add: ex_def setdefault_def)
  from a have "create_base_user_helper env db uid mail pass ex = Inr (user, db')"
    by (simp add: create_base_user_def ex_def Let_def)
  from create_base_user_helper_result [OF this] flags
  show "\<not> is_staff user" "\<not> is_superuser user" "is_active user"
       "base_users db' = base_users db @ [user]"
    by (simp_all add: BaseUser_def)
next
  show "\<not> is_active (BaseUser env uid' mail' Map.empty)"
    by (simp add: BaseUser_def)
next
  assume "validated_token (USER_ID_CLAIM st) = Some user_id \<and>
    objects_get to_python stored user_id = Inr (BaseUser env uid' mail' Map.empty)"
  then show "get_user to_python get_md5_hash_password st stored validated_token =
            Inl (AuthenticationFailed (Some ''user_inactive'')
                   (Some (Text ''User is inactive'')))"
    by (simp add: get_user_def BaseUser_def)
qed

theorem create_base_user_default_flags_witness:
  "create_base_user env1 db0 None (Some ''eva@refugio.org'') (Some ''secreto'') Map.empty =
     Inr (eva, db0\<lparr>base_users := [ana, luis, eva]\<rparr>) \<and>
   \<not> is_staff eva \<and> \<not> is_superuser eva \<and> is_active eva \<and>
   objects_get uuid_hex db_plain ref_one =
     Inr (BaseUser env1 None ''eva@refugio.org'' Map.empty) \<and>
   get_user uuid_hex fingerprint SIMPLE_JWT db_plain [''user_uuid'' \<mapsto> ref_one] =
     Inl (AuthenticationFailed (Some ''user_inactive'') (Some (Text ''User is inactive'')))"
proof -
  have c: "create_base_user env1 db0 None (Some ''eva@refugio.org'') (Some ''secreto'') Map.empty
             = Inr (eva, db0\<lparr>base_users := [ana, luis, eva]\<rparr>)"
    by (simp add: create_base_user_def create_base_user_helper_def setdefault_def BaseUser_def
          save_user_def env1_def db0_def ana_def luis_def eva_def Let_def key_ana_def
          key_luis_def key_one_def)
  have n: "Map.empty ''is_staff'' = (None :: bool option)"
      "Map.empty ''is_superuser'' = (None :: bool option)"
      "Map.empty ''is_active'' = (None :: bool option)"
    by simp_all
  have t: "[''user_uuid'' \<mapsto> ref_one] (USER_ID_CLAIM SIMPLE_JWT) = Some ref_one"
    by (simp add: SIMPLE_JWT_def)
  have g: "objects_get uuid_hex db_plain ref_one =
             Inr (BaseUser env1 None ''eva@refugio.org'' Map.empty)"
    by (simp add: objects_get_def uuid_hex_refs db_plain_def db0_def ana_def luis_def
          BaseUser_def env1_def key_ana_def key_luis_def key_one_def)
  note inst = create_base_user_default_flags
      [where extra_fields = Map.empty and env = env1 and db = db0 and uid = None
         and mail = "Some ''eva@refugio.org''" and pass = "Some ''secreto''"
         and user = eva and db' = "db0\<lparr>base_users := [ana, luis, eva]\<rparr>"
         and uid' = None and mail' = "''eva@refugio.org''"
         and validated_token = "[''user_uuid'' \<mapsto> ref_one]"
         and st = SIMPLE_JWT and user_id = ref_one and stored = db_plain
         and to_python = uuid_hex and get_md5_hash_password = fingerprint]
  from inst c n have flags: "\<not> is_staff eva \<and> \<not> is_superuser eva \<and> is_active eva"
    by blast
  from inst t g
  have "get_user uuid_hex fingerprint SIMPLE_JWT db_plain [''user_uuid'' \<mapsto> ref_one] =
     Inl (AuthenticationFailed (Some ''user_inactive'') (Some (Text ''User is inactive'')))"
    by blast
  with c flags g show ?thesis by blast
qed

section \<open>Shelter view\<close>

text \<open>
  C6. \<open>permission_denied\<close> raises \<open>NotAuthenticated\<close> exactly when the request has at
  least one authenticator and no successful one, and \<open>PermissionDenied\<close> exactly in
  every other case; both carry the code and message passed in.
\<close>

theorem permission_denied_kind:
  "(permission_denied req message code = NotAuthenticated code (map_option Text message))
     = (authenticators req \<noteq> [] \<and> successful_authenticator req = None) \<and>
   (permission_denied req message code = PermissionDenied code (map_option Text message))
     = (\<not> (authenticators req \<noteq> [] \<and> successful_authenticator req = None))"
  by (simp add: permission_denied_def)



section \<open>Registration\<close>

lemma email_in_use_message:
  "COMMON_ERROR_MESSAGES ''email_in_use'' =
     Some (''Este correo electr'' @ [CHR 0xC3, CHR 0xB3] @ ''nico ya est'' @
           [CHR 0xC3, CHR 0xA1] @ '' en uso.'')"
  by (simp add: COMMON_ERROR_MESSAGES_def)

lemma post_valid:
  "http_method req = ''POST'' \<Longrightarrow> serializer db (request.data req) = Inr v \<Longrightarrow>
   application v SHELTER db = (Inr (), db') \<Longrightarrow>
   post (ShelterAPIView application serializer) req db =
     (Inr \<lparr>data = None, status = 201, content_type = None\<rparr>, db')"
  by (simp add: post_def get_serializer_class_def handle_valid_request_def
        get_application_class_def ShelterAPIView_def)

lemma post_invalid:
  "http_method req = ''POST'' \<Longrightarrow> serializer db (request.data req) = Inl errs \<Longrightarrow>
   post (ShelterAPIView application serializer) req db =
     (Inr \<lparr>data = Some [(''code'', JString ''invalid_request_data''),
                        (''detail'', JErrors errs)],
           status = 400, content_type = Some ''application/json''\<rparr>, db)"
  by (simp add: post_def get_serializer_class_def handle_invalid_request_def ShelterAPIView_def)

lemma register_user_fresh:
  assumes "\<not> email_in_use env db d"
    and "\<not> list_ex (\<lambda>u. uuid u = uuid4 env) (base_users db)"
    and "\<not> list_ex (\<lambda>x. base_user x = uuid4 env) (shelters db)"
    and "\<not> list_ex (\<lambda>x. shelter_name x = field d ''shelter_name'') (shelters db)"
  shows "register_user env d SHELTER db =
     (Inr (),
      db\<lparr>base_users := base_users db @
            [\<lparr>uuid = uuid4 env, email = normalize_email env (d ''email''),
              password = make_password env (d ''password''),
              is_active = True, is_staff = False, is_superuser = False,
              last_login = None, date_joined = now env\<rparr>],
          shelters := shelters db @
            [\<lparr>base_user = uuid4 env,
              shelter_name = field d ''shelter_name'',
              shelter_address = field d ''shelter_address'',
              shelter_phone_number = field d ''shelter_phone_number'',
              shelter_responsible = field d ''shelter_responsible'',
              shelter_logo = field d ''shelter_logo''\<rparr>]\<rparr>)"
  using assms
  by (simp add: register_user_def create_base_user_def create_base_user_helper_def
        setdefault_def BaseUser_def save_user_def save_shelter_def email_in_use_def Let_def)

lemma register_user_name_taken:
  "register_user env2 form3 SHELTER db_hogar =
     (Inl (IntegrityError ''shelter.shelter_name''), db_hogar)"
  by (simp add: register_user_def create_base_user_def create_base_user_helper_def
        setdefault_def BaseUser_def save_user_def save_shelter_def Let_def field_def
        env1_def env2_def form3_def db_hogar_def db0_def ana_def luis_def
        key_ana_def key_luis_def key_one_def key_two_def)

lemma serializer_accepts_form3:
  "ShelterSerializer env2 no_rules db_hogar form3 = Inr form3"
  by (simp add: ShelterSerializer_def no_rules_def email_in_use_def env1_def env2_def
        form3_def db_hogar_def db0_def ana_def luis_def)


lemma register_user_atomic:
  "register_user env d SHELTER db = (Inl e, db') \<Longrightarrow> db' = db"
  by (auto simp: register_user_def split: sum.splits prod.splits)

lemma save_user_appends:
  "save_user db user = Inr db' \<Longrightarrow> db' = db\<lparr>base_users := base_users db @ [user]\<rparr>"
  by (auto simp: save_user_def split: if_splits)

lemma save_shelter_appends:
  "save_shelter db row = Inr db' \<Longrightarrow> db' = db\<lparr>shelters := shelters db @ [row]\<rparr>"
  by (auto simp: save_shelter_def split: if_splits)

lemma create_base_user_appends:
  "create_base_user env db uid mail pass ex = Inr (user, db') \<Longrightarrow>
   db' = db\<lparr>base_users := base_users db @ [user]\<rparr>"
  by (auto simp: create_base_user_def create_base_user_helper_def Let_def
        dest: save_user_appends split: sum.splits)

lemma register_user_both:
  assumes "register_user env d SHELTER db = (Inr (), db')"
  shows "\<exists>u s. base_users db' = base_users db @ [u] \<and> shelters db' = shelters db @ [s] \<and>
               base_user s = uuid u"
proof -
  let ?row = "\<lambda>user. \<lparr>base_user = uuid user,
                        shelter_name = field d ''shelter_name'',
                        shelter_address = field d ''shelter_address'',
                        shelter_phone_number = field d ''shelter_phone_number'',
                        shelter_responsible = field d ''shelter_responsible'',
                        shelter_logo = field d ''shelter_logo''\<rparr>"
  from assms have "\<exists>user db1.
      create_base_user env db None (d ''email'') (d ''password'') Map.empty = Inr (user, db1) \<and>
      save_shelter db1 (?row user) = Inr db'"
    by (auto simp: register_user_def split: sum.splits prod.splits)
  then obtain user db1 where
    c: "create_base_user env db None (d ''email'') (d ''password'') Map.empty = Inr (user, db1)"
    and p: "save_shelter db1 (?row user) = Inr db'"
    by blast
  from create_base_user_appends [OF c] save_shelter_appends [OF p]
  have "base_users db' = base_users db @ [user]" "shelters db' = shelters db @ [?row user]"
    by simp_all
  moreover have "base_user (?row user) = uuid user" by simp
  ultimately show ?thesis by blast
qed

lemma post_registration_atomic:
  assumes "post (ShelterAPIView (register_user env) (ShelterSerializer env field_rules)) req db
             = (res, db')"
    and "res \<noteq> Inr \<lparr>data = None, status = 201, content_type = None\<rparr>"
  shows "db' = db"
proof (cases "http_method req = ''POST''")
  case False
  with assms(1) show ?thesis
    by (simp add: post_def get_serializer_class_def ShelterAPIView_def)
next
  case True
  show ?thesis
  proof (cases "ShelterSerializer env field_rules db (request.data req)")
    case (Inl errs)
    with True assms(1) show ?thesis
      by (simp add: post_def get_serializer_class_def ShelterAPIView_def)
  next
    case (Inr v)
    obtain out db2 where o: "register_user env v SHELTER db = (out, db2)"
      by (cases "register_user env v SHELTER db")
    show ?thesis
    proof (cases out)
      case (Inl e)
      with o have "db2 = db" by (simp add: register_user_atomic)
      with True Inr o Inl assms(1) show ?thesis
        by (simp add: post_def get_serializer_class_def handle_valid_request_def
              get_application_class_def ShelterAPIView_def)
    next
      case (Inr u)
      with True \<open>ShelterSerializer env field_rules db (request.data req) = Inr v\<close> o assms
      show ?thesis
        by (simp add: post_def get_serializer_class_def handle_valid_request_def
              get_application_class_def ShelterAPIView_def)
    qed
  qed
qed



end
